theory Spec2Isabelle
  imports Main
begin

section \<open>The element tree\<close>

text \<open>
  An \<open>HTMLElement\<close> is a node of a finite tree. The model keeps what \<open>element-cloner.ts\<close>
  reads or writes: the identity of the node (a number, so that \<open>contains\<close> and
  \<open>removeChild\<close> can tell a clone from its source), the tag name, the attributes other
  than \<open>style\<close>, the inline style and the child elements in document order.

  The inline style \<open>element.style\<close> is a \<open>CSSStyleDeclaration\<close>: a set of declarations of
  longhand properties, here a dictionary from the property name as JavaScript spells it
  (\<open>maxHeight\<close>, \<open>overflowX\<close>, \<open>zIndex\<close>, ...) to the declared value. A shorthand is not
  a declaration of its own: writing \<open>overflow\<close> declares \<open>overflowX\<close> and \<open>overflowY\<close>, and
  reading \<open>overflow\<close> puts the two together.
\<close>

type_synonym style_decl = "string \<rightharpoonup> string"

datatype element =
  Element (node_id: nat) (tagName: string) (attributes: "(string \<times> string) list")
          (style: style_decl) (children: "element list")

text \<open>All nodes of a subtree, the root first (tree order).\<close>

fun nodes :: "element \<Rightarrow> element list" where
  "nodes (Element i t a st cs) = Element i t a st cs # concat (map nodes cs)"

subsection \<open>Reading and writing the inline style\<close>

text \<open>
  \<open>element.style.p\<close> read, for a longhand \<open>p\<close> and for the shorthand \<open>overflow\<close>: a longhand
  gives its declared value; \<open>overflow\<close> gives the common value of its two longhands, or
  both values, and nothing unless both are declared. \<open>None\<close> is the empty string of an
  undeclared property.
\<close>

definition style_read :: "style_decl \<Rightarrow> string \<Rightarrow> string option" where
  "style_read st p =
     (if p = ''overflow'' then
        (case st ''overflowX'' of
           None \<Rightarrow> None
         | Some x \<Rightarrow>
             (case st ''overflowY'' of
                None \<Rightarrow> None
              | Some y \<Rightarrow> Some (if x = y then x else x @ '' '' @ y)))
      else st p)"

text \<open>
  \<open>element.style.p = v\<close> for the eight assignments the source makes itself. Their values
  are constants that the style object accepts: the keywords \<open>unset\<close>, \<open>visible\<close>,
  \<open>absolute\<close>, \<open>relative\<close> and \<open>block\<close>, the length \<open>-9999px\<close>, the integer \<open>-1\<close>, and the
  length \<open>0\<close>, which is stored as \<open>0px\<close>. A write to \<open>overflow\<close> declares both longhands.
\<close>

definition write_style :: "string \<Rightarrow> string \<Rightarrow> style_decl \<Rightarrow> style_decl" where
  "write_style p v st =
     (if p = ''overflow'' then st(''overflowX'' \<mapsto> v, ''overflowY'' \<mapsto> v)
      else if p = ''top'' \<and> v = ''0'' then st(''top'' \<mapsto> ''0px'')
      else st(p \<mapsto> v))"

fun set_style :: "string \<Rightarrow> string \<Rightarrow> element \<Rightarrow> element" where
  "set_style p v (Element i t a st cs) = Element i t a (write_style p v st) cs"

subsection \<open>removeScrollLimits\<close>

text \<open>
  \<^verbatim>\<open>
  static removeScrollLimits(element: HTMLElement): void {
    element.style.maxHeight = "unset";
    element.style.overflowY = "visible";
    element.style.overflow = "visible";
    const children = element.children;
    for (let i = 0; i < children.length; i++) {
      ElementCloner.removeScrollLimits(children[i] as HTMLElement);
    }
  }
  \<close>
  The function mutates the subtree in place; the model returns the subtree after the call.
\<close>

fun removeScrollLimits :: "element \<Rightarrow> element" where
  "removeScrollLimits (Element i t a st cs) =
     Element i t a
       (write_style ''overflow'' ''visible''
         (write_style ''overflowY'' ''visible''
           (write_style ''maxHeight'' ''unset'' st)))
       (map removeScrollLimits cs)"


text \<open>
  The subtree with the declarations of \<open>maxHeight\<close>, \<open>overflowX\<close> and \<open>overflowY\<close> erased
  from every inline style: two subtrees with the same image differ at most in those.
\<close>

fun forget_limits :: "element \<Rightarrow> element" where
  "forget_limits (Element i t a st cs) =
     Element i t a
       (st(''maxHeight'' := None, ''overflowX'' := None, ''overflowY'' := None))
       (map forget_limits cs)"

section \<open>Documents, targets and options\<close>

text \<open>
  The live document: the elements that precede the body in tree order (the head and its
  content) and the body element. Together with the document the state holds the
  identity the next created node will get; nodes are only ever created by \<open>cloneNode\<close>.
\<close>

record document =
  head :: "element list"
  body :: element

record state =
  doc :: document
  next_id :: nat

text \<open>
  \<open>document.getElementById(s)\<close>: the first element in tree order whose \<open>id\<close> attribute is
  \<open>s\<close>, or null; an empty \<open>id\<close> identifies no element.
\<close>

definition document_nodes :: "document \<Rightarrow> element list" where
  "document_nodes d = concat (map nodes (head d)) @ nodes (body d)"

definition getElementById :: "document \<Rightarrow> string \<Rightarrow> element option" where
  "getElementById d s =
     (if s = [] then None
      else find (\<lambda>e. map_of (attributes e) ''id'' = Some s) (document_nodes d))"

text \<open>
  \<open>type ElementTarget = string | HTMLElement\<close>. A handle that is \<open>null\<close> or \<open>undefined\<close>
  at run time is \<open>Handle None\<close>.
\<close>

datatype ElementTarget = ById string | Handle "element option"

text \<open>
  \<^verbatim>\<open>typeof target === "string" ? document.getElementById(target) : target\<close>
\<close>

definition resolve_target :: "document \<Rightarrow> ElementTarget \<Rightarrow> element option" where
  "resolve_target d target =
     (case target of ById s \<Rightarrow> getElementById d s | Handle h \<Rightarrow> h)"

text \<open>
  A property of a JavaScript options object is missing, present with the value
  \<open>undefined\<close>, or present with a value. Reading a missing property gives \<open>undefined\<close>;
  object spread copies a present property even when its value is \<open>undefined\<close>.
  The \<open>styles\<close> object is the list of its own properties in the order \<open>Object.assign\<close>
  visits them.
\<close>

datatype 'a property = Absent | Undefined | Value 'a

datatype position = OffScreen | Visible

record CloneOptions =
  position :: "position property"
  styles :: "(string \<times> string) list property"

text \<open>The exceptions the operations can raise.\<close>

datatype error =
  ElementNotFound  \<comment> \<open>\<open>new Error("Element not found")\<close>\<close>
| DOM_NotFoundError  \<comment> \<open>the \<open>DOMException\<close> of \<open>removeChild\<close> on a node that is not a child\<close>
| TypeError  \<comment> \<open>raised by \<open>Object.assign\<close> when the style object refuses a write\<close>

record ElementDimensions =
  width :: int
  height :: int
  offsetWidth :: int
  offsetHeight :: int

record ScrollLimitInfo =
  hasMaxHeight :: bool
  hasOverflow :: bool
  hasOverflowY :: bool
  maxHeight :: string
  overflow :: string
  overflowY :: string

text \<open>
  What the browser computes and the source only reads: the layout metrics of a node in a
  document, and the computed style of an element. Both are parameters of the operations
  that read them.
\<close>

record box_metrics =
  scrollWidth :: int
  scrollHeight :: int
  boxWidth :: int
  boxHeight :: int

type_synonym layout_engine = "document \<Rightarrow> nat \<Rightarrow> box_metrics"

text \<open>
  What the style object does with a property that a caller assigns is the browser's as
  well: it may store the value, store another spelling of it, declare several longhands
  (a shorthand such as \<open>inset\<close>), replace every declaration (\<open>cssText\<close>), leave the
  declarations alone (a value it cannot parse, a name it does not know) or refuse the
  write (a read-only property such as \<open>length\<close>). It is a parameter too.
\<close>

type_synonym style_setter = "string \<Rightarrow> string \<Rightarrow> style_decl \<Rightarrow> error + style_decl"

type_synonym style_engine = "document \<Rightarrow> element \<Rightarrow> string \<Rightarrow> string"

subsection \<open>DOM primitives\<close>

text \<open>
  \<open>element.cloneNode(true)\<close>: a deep copy made of new nodes. The copy keeps tag, attributes,
  inline style and child order; its nodes get the next unused identities.
\<close>

fun cloneNode :: "nat \<Rightarrow> element \<Rightarrow> element \<times> nat"
  and cloneNodes :: "nat \<Rightarrow> element list \<Rightarrow> element list \<times> nat" where
  "cloneNode n (Element i t a st cs) =
     (case cloneNodes (Suc n) cs of (cs', n') \<Rightarrow> (Element n t a st cs', n'))"
| "cloneNodes n [] = ([], n)"
| "cloneNodes n (c # cs) =
     (case cloneNode n c of (c', n1) \<Rightarrow>
        (case cloneNodes n1 cs of (cs', n2) \<Rightarrow> (c' # cs', n2)))"

text \<open>
  \<open>Object.assign(element.style, m)\<close>: for each own property of \<open>m\<close>, in order,
  \<open>element.style[k] = v\<close>; the first write that is refused ends it with a \<open>TypeError\<close>.
\<close>

fun object_assign :: "style_setter \<Rightarrow> (string \<times> string) list \<Rightarrow> style_decl \<Rightarrow> error + style_decl" where
  "object_assign setStyle [] st = Inr st"
| "object_assign setStyle ((k, v) # kvs) st =
     (case setStyle k v st of
        Inl e \<Rightarrow> Inl e
      | Inr st' \<Rightarrow> object_assign setStyle kvs st')"

fun with_style :: "style_decl \<Rightarrow> element \<Rightarrow> element" where
  "with_style st' (Element i t a st cs) = Element i t a st' cs"

text \<open>
  \<open>document.body.appendChild(c)\<close> for a node \<open>c\<close> that has no parent (both call sites pass
  the clone they have just made): \<open>c\<close> becomes the last child of the body.
\<close>

definition body_appendChild :: "element \<Rightarrow> document \<Rightarrow> document" where
  "body_appendChild c d =
     d\<lparr>body := Element (node_id (body d)) (tagName (body d)) (attributes (body d))
                  (style (body d)) (children (body d) @ [c])\<rparr>"

text \<open>\<open>document.body.contains(c)\<close>: \<open>c\<close> is the body or one of its descendants.\<close>

definition body_contains :: "nat \<Rightarrow> document \<Rightarrow> bool" where
  "body_contains i d \<longleftrightarrow> i \<in> set (map node_id (nodes (body d)))"

text \<open>
  \<open>document.body.removeChild(c)\<close>: raises \<open>NotFoundError\<close> unless \<open>c\<close> is a child of the
  body itself; otherwise takes \<open>c\<close> out of the body's children.
\<close>

fun remove_node :: "nat \<Rightarrow> element list \<Rightarrow> element list" where
  "remove_node i [] = []"
| "remove_node i (c # cs) = (if node_id c = i then cs else c # remove_node i cs)"

definition body_removeChild :: "nat \<Rightarrow> document \<Rightarrow> error + document" where
  "body_removeChild i d =
     (if i \<in> set (map node_id (children (body d)))
      then Inr (d\<lparr>body := Element (node_id (body d)) (tagName (body d)) (attributes (body d))
                            (style (body d)) (remove_node i (children (body d)))\<rparr>)
      else Inl DOM_NotFoundError)"

subsection \<open>cloneElement\<close>

text \<open>
  \<^verbatim>\<open>
  static cloneElement(target: ElementTarget, options: CloneOptions = {}): HTMLElement {
    const element =
      typeof target === "string" ? document.getElementById(target) : target;
    if (!element) { throw new Error("Element not found"); }
    const clonedElement = element.cloneNode(true) as HTMLElement;
    ElementCloner.removeScrollLimits(clonedElement);
    if (options.position === "off-screen") {
      clonedElement.style.position = "absolute";
      clonedElement.style.left = "-9999px";
      clonedElement.style.top = "0";
      clonedElement.style.zIndex = "-1";
    } else if (options.position === "visible") {
      clonedElement.style.position = "relative";
      clonedElement.style.display = "block";
    }
    if (options.styles) { Object.assign(clonedElement.style, options.styles); }
    return clonedElement;
  }
  \<close>
  Every operation returns its result, or the exception it raised, together with the state
  it leaves behind. The options object \<open>{}\<close> is the record with both properties \<open>Absent\<close>.
\<close>

definition apply_position :: "position property \<Rightarrow> element \<Rightarrow> element" where
  "apply_position p c =
     (if p = Value OffScreen then
        set_style ''zIndex'' ''-1''
          (set_style ''top'' ''0''
            (set_style ''left'' ''-9999px''
              (set_style ''position'' ''absolute'' c)))
      else if p = Value Visible then
        set_style ''display'' ''block'' (set_style ''position'' ''relative'' c)
      else c)"

definition apply_styles ::
  "style_setter \<Rightarrow> (string \<times> string) list property \<Rightarrow> element \<Rightarrow> error + element" where
  "apply_styles setStyle st c =
     (case st of
        Value m \<Rightarrow>
          (case object_assign setStyle m (style c) of
             Inl e \<Rightarrow> Inl e
           | Inr st' \<Rightarrow> Inr (with_style st' c))
      | _ \<Rightarrow> Inr c)"

definition cloneElement ::
  "style_setter \<Rightarrow> state \<Rightarrow> ElementTarget \<Rightarrow> CloneOptions \<Rightarrow> (error + element) \<times> state" where
  "cloneElement setStyle s target options =
     (case resolve_target (doc s) target of
        None \<Rightarrow> (Inl ElementNotFound, s)
      | Some element \<Rightarrow>
          (case cloneNode (next_id s) element of
             (clonedElement, n) \<Rightarrow>
               (apply_styles setStyle (styles options)
                  (apply_position (position options)
                    (removeScrollLimits clonedElement)),
                s\<lparr>next_id := n\<rparr>)))"

subsection \<open>checkScrollLimits\<close>

text \<open>
  \<^verbatim>\<open>
  static checkScrollLimits(target: ElementTarget): ScrollLimitInfo {
    const element =
      typeof target === "string" ? document.getElementById(target) : target;
    if (!element) { throw new Error("Element not found"); }
    const computedStyle = window.getComputedStyle(element);
    return {
      hasMaxHeight: computedStyle.maxHeight !== "none",
      hasOverflow: computedStyle.overflow !== "visible",
      hasOverflowY: computedStyle.overflowY !== "visible",
      maxHeight: computedStyle.maxHeight,
      overflow: computedStyle.overflow,
      overflowY: computedStyle.overflowY,
    };
  }
  \<close>
\<close>

definition checkScrollLimits ::
  "style_engine \<Rightarrow> state \<Rightarrow> ElementTarget \<Rightarrow> (error + ScrollLimitInfo) \<times> state" where
  "checkScrollLimits getComputedStyle s target =
     (case resolve_target (doc s) target of
        None \<Rightarrow> (Inl ElementNotFound, s)
      | Some element \<Rightarrow>
          (let computedStyle = getComputedStyle (doc s) element
           in (Inr \<lparr>hasMaxHeight = (computedStyle ''maxHeight'' \<noteq> ''none''),
                    hasOverflow = (computedStyle ''overflow'' \<noteq> ''visible''),
                    hasOverflowY = (computedStyle ''overflowY'' \<noteq> ''visible''),
                    maxHeight = computedStyle ''maxHeight'',
                    overflow = computedStyle ''overflow'',
                    overflowY = computedStyle ''overflowY''\<rparr>,
               s)))"

subsection \<open>cloneAndAddToDOM\<close>

text \<open>
  \<^verbatim>\<open>
  static cloneAndAddToDOM(target: ElementTarget, options: CloneOptions = {}): ClonedElementData {
    const clonedElement = ElementCloner.cloneElement(target, {
      position: "off-screen",
      ...options,
    });
    document.body.appendChild(clonedElement);
    return {
      element: clonedElement,
      remove: (): void => {
        if (document.body.contains(clonedElement)) {
          document.body.removeChild(clonedElement);
        }
      },
      getDimensions: (): ElementDimensions => ({
        width: clonedElement.scrollWidth,
        height: clonedElement.scrollHeight,
        offsetWidth: clonedElement.offsetWidth,
        offsetHeight: clonedElement.offsetHeight,
      }),
    };
  }
  \<close>
  The two closures of the returned object refer to the clone by identity and run on the
  state in which they are called.
\<close>

record ClonedElementData =
  element :: element
  remove :: "state \<Rightarrow> (error + unit) \<times> state"
  getDimensions :: "state \<Rightarrow> ElementDimensions"

definition with_default_position :: "CloneOptions \<Rightarrow> CloneOptions" where
  "with_default_position options =
     \<lparr>position = (case position options of Absent \<Rightarrow> Value OffScreen | p \<Rightarrow> p),
      styles = styles options\<rparr>"

definition remove_clone :: "nat \<Rightarrow> state \<Rightarrow> (error + unit) \<times> state" where
  "remove_clone i s =
     (if body_contains i (doc s) then
        (case body_removeChild i (doc s) of
           Inl e \<Rightarrow> (Inl e, s)
         | Inr d \<Rightarrow> (Inr (), s\<lparr>doc := d\<rparr>))
      else (Inr (), s))"

definition read_dimensions :: "layout_engine \<Rightarrow> nat \<Rightarrow> document \<Rightarrow> ElementDimensions" where
  "read_dimensions layout i d =
     \<lparr>width = scrollWidth (layout d i), height = scrollHeight (layout d i),
      offsetWidth = boxWidth (layout d i), offsetHeight = boxHeight (layout d i)\<rparr>"

definition cloneAndAddToDOM ::
  "style_setter \<Rightarrow> layout_engine \<Rightarrow> state \<Rightarrow> ElementTarget \<Rightarrow> CloneOptions \<Rightarrow>
     (error + ClonedElementData) \<times> state" where
  "cloneAndAddToDOM setStyle layout s target options =
     (case cloneElement setStyle s target (with_default_position options) of
        (Inl e, s') \<Rightarrow> (Inl e, s')
      | (Inr clonedElement, s') \<Rightarrow>
          (Inr \<lparr>element = clonedElement,
                remove = remove_clone (node_id clonedElement),
                getDimensions = (\<lambda>s. read_dimensions layout (node_id clonedElement) (doc s))\<rparr>,
           s'\<lparr>doc := body_appendChild clonedElement (doc s')\<rparr>))"

subsection \<open>getFullDimensions\<close>

text \<open>
  \<^verbatim>\<open>
  static getFullDimensions(target: ElementTarget): ElementDimensions {
    const clonedElement = ElementCloner.cloneElement(target, { position: "off-screen" });
    document.body.appendChild(clonedElement);
    const dimensions: ElementDimensions = {
      width: clonedElement.scrollWidth,
      height: clonedElement.scrollHeight,
      offsetWidth: clonedElement.offsetWidth,
      offsetHeight: clonedElement.offsetHeight,
    };
    document.body.removeChild(clonedElement);
    return dimensions;
  }
  \<close>
\<close>

definition getFullDimensions ::
  "style_setter \<Rightarrow> layout_engine \<Rightarrow> state \<Rightarrow> ElementTarget \<Rightarrow>
     (error + ElementDimensions) \<times> state" where
  "getFullDimensions setStyle layout s target =
     (case cloneElement setStyle s target \<lparr>position = Value OffScreen, styles = Absent\<rparr> of
        (Inl e, s') \<Rightarrow> (Inl e, s')
      | (Inr clonedElement, s') \<Rightarrow>
          (let attached = body_appendChild clonedElement (doc s');
               dimensions = read_dimensions layout (node_id clonedElement) attached
           in case body_removeChild (node_id clonedElement) attached of
                Inl e \<Rightarrow> (Inl e, s'\<lparr>doc := attached\<rparr>)
              | Inr d \<Rightarrow> (Inr dimensions, s'\<lparr>doc := d\<rparr>)))"

subsection \<open>A sample page\<close>

text \<open>
  A body holding a \<open>div id="container"\<close> with the inline style
  \<open>max-height: 50px; overflow: hidden; color: red\<close>, which holds one paragraph. The
  identities 1, 2 and 3 are in use, the next node gets 4.
\<close>

definition sample_container :: element where
  "sample_container =
     Element 2 ''div'' [(''id'', ''container'')]
       [''maxHeight'' \<mapsto> ''50px'', ''overflowX'' \<mapsto> ''hidden'', ''overflowY'' \<mapsto> ''hidden'',
        ''color'' \<mapsto> ''red'']
       [Element 3 ''p'' [] Map.empty []]"

definition sample_state :: state where
  "sample_state =
     \<lparr>doc = \<lparr>head = [], body = Element 1 ''body'' [] Map.empty [sample_container]\<rparr>,
      next_id = 4\<rparr>"

text \<open>
  Stand-ins for the browser on the sample page. Every node measures 300 by 500. The
  computed value of a property is what the inline style reads, or else its initial
  value. The style object knows a few properties with a few of their values: it
  declares both longhands for \<open>overflow\<close>, stores \<open>left\<close> and \<open>color\<close>, refuses to write
  the read-only \<open>length\<close> and \<open>parentRule\<close>, and leaves the declarations alone on
  anything else, as it does on a value it cannot parse.
\<close>

definition sample_layout :: layout_engine where
  "sample_layout d i = \<lparr>scrollWidth = 300, scrollHeight = 500, boxWidth = 300, boxHeight = 500\<rparr>"

definition sample_getComputedStyle :: style_engine where
  "sample_getComputedStyle d e p =
     (case style_read (style e) p of Some v \<Rightarrow> v
      | None \<Rightarrow> if p = ''maxHeight'' then ''none'' else ''visible'')"

definition sample_setStyle :: style_setter where
  "sample_setStyle k v st =
     (if k = ''length'' \<or> k = ''parentRule'' then Inl TypeError
      else if k = ''overflow'' \<and> v \<in> set [''visible'', ''hidden'', ''scroll'', ''auto'']
        then Inr (st(''overflowX'' \<mapsto> v, ''overflowY'' \<mapsto> v))
      else if k = ''left'' \<and> v \<in> set [''auto'', ''0px'', ''5px'']
        then Inr (st(''left'' \<mapsto> v))
      else if k = ''color'' \<and> v \<in> set [''red'', ''blue'']
        then Inr (st(''color'' \<mapsto> v))
      else Inr st)"

text \<open>
  A caller's script that moves the clone, the last child of the body, into a new \<open>div\<close>
  that takes its place:
  \<^verbatim>\<open>
  const w = document.createElement("div");
  document.body.appendChild(w);
  w.appendChild(handle.element);
  \<close>
\<close>

definition sample_wrap_clone :: "state \<Rightarrow> state" where
  "sample_wrap_clone s =
     s\<lparr>doc := (doc s)\<lparr>body :=
            Element (node_id (body (doc s))) (tagName (body (doc s)))
              (attributes (body (doc s))) (style (body (doc s)))
              (butlast (children (body (doc s))) @
                 [Element (next_id s) ''div'' [] Map.empty [last (children (body (doc s)))]])\<rparr>,
       next_id := Suc (next_id s)\<rparr>"

subsection \<open>Predicates of the statements\<close>

text \<open>The entries of the caller's \<open>styles\<close> object that \<open>cloneElement\<close> assigns.\<close>

definition style_entries :: "CloneOptions \<Rightarrow> (string \<times> string) list" where
  "style_entries options = (case styles options of Value m \<Rightarrow> m | _ \<Rightarrow> [])"

text \<open>
  What a statement may need to know of the style object at the entries \<open>m\<close> of a caller:
  that it refuses none of them; that none of them changes what the property \<open>p\<close> reads;
  that a write of \<open>v\<close> to \<open>k\<close> makes \<open>k\<close> read \<open>v\<close>.
\<close>

definition never_refuses :: "style_setter \<Rightarrow> (string \<times> string) list \<Rightarrow> bool" where
  "never_refuses setStyle m \<longleftrightarrow> (\<forall>(k, v) \<in> set m. \<forall>st. \<exists>st'. setStyle k v st = Inr st')"

definition leaves_alone :: "style_setter \<Rightarrow> (string \<times> string) list \<Rightarrow> string \<Rightarrow> bool" where
  "leaves_alone setStyle m p \<longleftrightarrow>
     (\<forall>(k, v) \<in> set m. \<forall>st st'. setStyle k v st = Inr st' \<longrightarrow> style_read st' p = style_read st p)"


text \<open>
  Identities are handed out in increasing order: no node of the document has the
  identity that the next created node will get, or a later one.
\<close>

definition fresh_ids :: "state \<Rightarrow> bool" where
  "fresh_ids s \<longleftrightarrow> (\<forall>n \<in> set (document_nodes (doc s)). node_id n < next_id s)"

section \<open>Scroll-limit normalisation\<close>

lemma nodes_self: "e \<in> set (nodes e)"
  by (cases e) simp

lemma node_ids_removeScrollLimits:
  "map node_id (nodes (removeScrollLimits e)) = map node_id (nodes e)"
proof (induction e)
  case (Element i t a st cs)
  then show ?case
    by (simp add: map_concat comp_def cong: map_cong)
qed

lemma style_removeScrollLimits:
  "style (removeScrollLimits e) =
     (style e)(''maxHeight'' \<mapsto> ''unset'', ''overflowX'' \<mapsto> ''visible'',
               ''overflowY'' \<mapsto> ''visible'')"
  by (cases e) (auto simp: write_style_def)




subsection \<open>What normalisation leaves alone\<close>

lemma node_id_removeScrollLimits [simp]: "node_id (removeScrollLimits e) = node_id e"
  by (cases e) simp

lemma tagName_removeScrollLimits [simp]: "tagName (removeScrollLimits e) = tagName e"
  by (cases e) simp

lemma attributes_removeScrollLimits [simp]: "attributes (removeScrollLimits e) = attributes e"
  by (cases e) simp

lemma children_removeScrollLimits [simp]:
  "children (removeScrollLimits e) = map removeScrollLimits (children e)"
  by (cases e) simp

lemma style_read_removeScrollLimits_other:
  "p \<notin> {''maxHeight'', ''overflow'', ''overflowX'', ''overflowY''} \<Longrightarrow>
   style_read (style (removeScrollLimits e)) p = style_read (style e) p"
  by (simp add: style_removeScrollLimits style_read_def)

lemma nodes_removeScrollLimits:
  "nodes (removeScrollLimits e) = map removeScrollLimits (nodes e)"
proof (induction e)
  case (Element i t a st cs)
  then show ?case
    by (simp add: map_concat comp_def cong: map_cong)
qed

lemma forget_limits_removeScrollLimits:
  "forget_limits (removeScrollLimits e) = forget_limits e"
proof (induction e)
  case (Element i t a st cs)
  have "(write_style ''overflow'' ''visible''
           (write_style ''overflowY'' ''visible'' (write_style ''maxHeight'' ''unset'' st)))
          (''maxHeight'' := None, ''overflowX'' := None, ''overflowY'' := None)
        = st(''maxHeight'' := None, ''overflowX'' := None, ''overflowY'' := None)"
    by (auto simp: write_style_def fun_eq_iff)
  with Element show ?case by (simp cong: map_cong)
qed

text \<open>
  C9, as amended. \<open>removeScrollLimits\<close> changes nothing but the inline \<open>maxHeight\<close> and
  \<open>overflow\<close>, the latter with both its longhands \<open>overflowX\<close> and \<open>overflowY\<close>, of the
  nodes it visits: with these declarations erased the subtree after the call is the
  subtree before it; in particular the nodes, their tag names, their attributes other
  than \<open>style\<close> and their children are the same and in the same order, and every
  other inline style property of every node reads as it did.
\<close>

theorem removeScrollLimits_frame:
  "forget_limits (removeScrollLimits e) = forget_limits e \<and>
   map node_id (nodes (removeScrollLimits e)) = map node_id (nodes e) \<and>
   map tagName (nodes (removeScrollLimits e)) = map tagName (nodes e) \<and>
   map attributes (nodes (removeScrollLimits e)) = map attributes (nodes e) \<and>
   map (\<lambda>n. map node_id (children n)) (nodes (removeScrollLimits e)) =
     map (\<lambda>n. map node_id (children n)) (nodes e) \<and>
   (\<forall>p. p \<notin> {''maxHeight'', ''overflow'', ''overflowX'', ''overflowY''} \<longrightarrow>
        map (\<lambda>n. style_read (style n) p) (nodes (removeScrollLimits e)) =
        map (\<lambda>n. style_read (style n) p) (nodes e))"
  by (simp add: forget_limits_removeScrollLimits nodes_removeScrollLimits comp_def
        style_read_removeScrollLimits_other)

theorem removeScrollLimits_frame_witness:
  "''color'' \<notin> {''maxHeight'', ''overflow'', ''overflowX'', ''overflowY''} \<and>
   map (\<lambda>n. style_read (style n) ''color'') (nodes (removeScrollLimits sample_container)) =
     [Some ''red'', None] \<and>
   map tagName (nodes (removeScrollLimits sample_container)) = [''div'', ''p''] \<and>
   map (\<lambda>n. map node_id (children n)) (nodes (removeScrollLimits sample_container)) = [[3], []]"
proof -
  have "map (\<lambda>n. style_read (style n) ''color'') (nodes sample_container) = [Some ''red'', None]"
    and "map tagName (nodes sample_container) = [''div'', ''p'']"
    and "map (\<lambda>n. map node_id (children n)) (nodes sample_container) = [[3], []]"
    by (simp_all add: sample_container_def style_read_def)
  then show ?thesis
    using removeScrollLimits_frame [of sample_container] by simp
qed

text \<open>
  C9 as first stated names \<open>maxHeight\<close>, \<open>overflow\<close> and \<open>overflowY\<close> only and fails on
  \<open>overflowX\<close>, which is none of the three: on \<open><div style="overflow-x: scroll">\<close> the
  write to \<open>overflow\<close> turns \<open>overflowX\<close> from \<open>scroll\<close> into \<open>visible\<close>.
\<close>

theorem removeScrollLimits_frame_counterexample:
  "''overflowX'' \<notin> {''maxHeight'', ''overflow'', ''overflowY''} \<and>
   style_read (style (Element 0 ''div'' [] [''overflowX'' \<mapsto> ''scroll''] [])) ''overflowX''
     = Some ''scroll'' \<and>
   style_read (style (removeScrollLimits (Element 0 ''div'' [] [''overflowX'' \<mapsto> ''scroll''] [])))
     ''overflowX'' = Some ''visible''"
  by (simp add: style_read_def write_style_def)

section \<open>Cloning, placement and caller styles\<close>

lemma cloneNode_root:
  "node_id (fst (cloneNode n e)) = n \<and> tagName (fst (cloneNode n e)) = tagName e \<and>
   attributes (fst (cloneNode n e)) = attributes e \<and> style (fst (cloneNode n e)) = style e"
  by (cases e) (simp split: prod.splits)


lemma node_id_set_style [simp]: "node_id (set_style p v c) = node_id c"
  by (cases c) simp

lemma node_id_apply_position [simp]: "node_id (apply_position p c) = node_id c"
  by (simp add: apply_position_def)

lemma style_with_style [simp]: "style (with_style st c) = st"
  by (cases c) simp

lemma node_id_with_style [simp]: "node_id (with_style st c) = node_id c"
  by (cases c) simp

lemma with_style_same [simp]: "with_style (style c) c = c"
  by (cases c) simp




lemma object_assign_never_refuses:
  "never_refuses setStyle m \<Longrightarrow> \<exists>st'. object_assign setStyle m st = Inr st'"
proof (induction m arbitrary: st)
  case Nil
  then show ?case by simp
next
  case (Cons kv m)
  obtain k v where kv: "kv = (k, v)" by (cases kv)
  from Cons.prems kv obtain st1 where 1: "setStyle k v st = Inr st1"
    unfolding never_refuses_def by fastforce
  from Cons.prems have "never_refuses setStyle m"
    by (simp add: never_refuses_def)
  from Cons.IH [OF this, of st1] 1 kv show ?case by simp
qed

lemma object_assign_leaves_alone:
  "leaves_alone setStyle m p \<Longrightarrow> object_assign setStyle m st = Inr st' \<Longrightarrow>
   style_read st' p = style_read st p"
proof (induction m arbitrary: st)
  case Nil
  then show ?case by simp
next
  case (Cons kv m)
  obtain k v where kv: "kv = (k, v)" by (cases kv)
  from Cons.prems(2) kv obtain st1 where 1: "setStyle k v st = Inr st1"
    and 2: "object_assign setStyle m st1 = Inr st'"
    by (auto split: sum.splits)
  from Cons.prems(1) kv 1 have "style_read st1 p = style_read st p"
    unfolding leaves_alone_def by fastforce
  moreover from Cons.prems(1) have "leaves_alone setStyle m p"
    by (simp add: leaves_alone_def)
  from Cons.IH [OF this 2] have "style_read st' p = style_read st1 p" .
  ultimately show ?case by simp
qed

lemma apply_styles_entries:
  "apply_styles setStyle (styles options) c =
     (case object_assign setStyle (style_entries options) (style c) of
        Inl e \<Rightarrow> Inl e
      | Inr st' \<Rightarrow> Inr (with_style st' c))"
  by (simp add: apply_styles_def style_entries_def split: property.splits)

lemma apply_styles_Inr:
  assumes "apply_styles setStyle (styles options) c = Inr c'"
  shows "object_assign setStyle (style_entries options) (style c) = Inr (style c')"
    and "node_id c' = node_id c"
  using assms by (auto simp: apply_styles_entries split: sum.splits)

lemma apply_styles_never_refuses:
  assumes "never_refuses setStyle (style_entries options)"
  shows "\<exists>c'. apply_styles setStyle (styles options) c = Inr c'"
  using object_assign_never_refuses [OF assms, of "style c"]
  by (auto simp: apply_styles_entries)

lemma cloneElement_found:
  "resolve_target (doc s) target = Some el \<Longrightarrow>
   cloneElement setStyle s target options =
     (apply_styles setStyle (styles options)
        (apply_position (position options)
          (removeScrollLimits (fst (cloneNode (next_id s) el)))),
      s\<lparr>next_id := snd (cloneNode (next_id s) el)\<rparr>)"
  by (simp add: cloneElement_def split: prod.splits)

lemma cloneElement_not_found:
  "resolve_target (doc s) target = None \<Longrightarrow>
   cloneElement setStyle s target options = (Inl ElementNotFound, s)"
  by (simp add: cloneElement_def)

lemma children_body_appendChild:
  "children (body (body_appendChild c d)) = children (body d) @ [c]"
  by (simp add: body_appendChild_def)

lemma style_entries_default [simp]:
  "style_entries (with_default_position options) = style_entries options"
  by (simp add: style_entries_def with_default_position_def)

lemma styles_default [simp]: "styles (with_default_position options) = styles options"
  by (simp add: with_default_position_def)

lemma cloneAndAddToDOM_found:
  assumes "resolve_target (doc s) target = Some el"
    and "cloneAndAddToDOM setStyle layout s target options = (Inr h, s')"
  shows "apply_styles setStyle (styles options)
           (apply_position (position (with_default_position options))
              (removeScrollLimits (fst (cloneNode (next_id s) el)))) = Inr (element h)"
    and "remove h = remove_clone (next_id s)"
    and "node_id (element h) = next_id s"
    and "doc s' = body_appendChild (element h) (doc s)"
    and "next_id s' = snd (cloneNode (next_id s) el)"
proof -
  let ?r = "apply_styles setStyle (styles options)
           (apply_position (position (with_default_position options))
              (removeScrollLimits (fst (cloneNode (next_id s) el))))"
  from assms obtain c where c: "?r = Inr c"
    by (auto simp: cloneAndAddToDOM_def cloneElement_found split: sum.splits)
  have id: "node_id c = next_id s"
    using apply_styles_Inr(2) [of setStyle "with_default_position options"] c
    by (simp add: cloneNode_root)
  from assms c have h: "h = \<lparr>element = c, remove = remove_clone (node_id c),
        getDimensions = (\<lambda>s. read_dimensions layout (node_id c) (doc s))\<rparr>"
    and s': "s' = s\<lparr>next_id := snd (cloneNode (next_id s) el),
                    doc := body_appendChild c (doc s)\<rparr>"
    by (simp_all add: cloneAndAddToDOM_def cloneElement_found)
  from h c show "?r = Inr (element h)" by simp
  from h id show "remove h = remove_clone (next_id s)" by simp
  from h id show "node_id (element h) = next_id s" by simp
  from h s' show "doc s' = body_appendChild (element h) (doc s)" by simp
  from s' show "next_id s' = snd (cloneNode (next_id s) el)" by simp
qed

lemma cloneAndAddToDOM_succeeds:
  assumes "resolve_target (doc s) target = Some el"
    and "never_refuses setStyle (style_entries options)"
  shows "\<exists>h s'. cloneAndAddToDOM setStyle layout s target options = (Inr h, s')"
proof -
  from assms(2) have "never_refuses setStyle (style_entries (with_default_position options))"
    by simp
  from apply_styles_never_refuses [OF this]
  obtain c where "apply_styles setStyle (styles options)
           (apply_position (position (with_default_position options))
              (removeScrollLimits (fst (cloneNode (next_id s) el)))) = Inr c"
    by fastforce
  then show ?thesis
    by (simp add: cloneAndAddToDOM_def cloneElement_found [OF assms(1)])
qed

lemma sample_resolve:
  "resolve_target (doc sample_state) (ById ''container'') = Some sample_container"
  by (simp add: resolve_target_def getElementById_def document_nodes_def sample_state_def
        sample_container_def)

lemma sample_resolve_none:
  "getElementById (doc sample_state) ''nonexistent-id'' = None"
  by (simp add: getElementById_def document_nodes_def sample_state_def sample_container_def)

lemma never_refuses_no_styles [simp]:
  "never_refuses setStyle (style_entries \<lparr>position = p, styles = Absent\<rparr>)"
  by (simp add: never_refuses_def style_entries_def)

lemma leaves_alone_no_styles [simp]:
  "leaves_alone setStyle (style_entries \<lparr>position = p, styles = Absent\<rparr>) q"
  by (simp add: leaves_alone_def style_entries_def)



lemma placement_untouched_by_normalisation:
  assumes "p \<in> {''position'', ''left'', ''top'', ''zIndex'', ''display''}"
  shows "style_read (style (removeScrollLimits (fst (cloneNode n el)))) p = style_read (style el) p"
  using assms by (auto simp: style_removeScrollLimits cloneNode_root style_read_def)


subsection \<open>Unresolvable targets\<close>

text \<open>
  C2. If the target is a string that \<open>getElementById\<close> resolves to no element, or a
  handle that is null, then \<open>cloneElement\<close>, \<open>cloneAndAddToDOM\<close>, \<open>getFullDimensions\<close> and
  \<open>checkScrollLimits\<close> all raise the error "Element not found" and leave the state,
  the document included, exactly as it was.
\<close>

theorem target_not_found_no_mutation:
  assumes "(\<exists>i. target = ById i \<and> getElementById (doc s) i = None) \<or> target = Handle None"
  shows "cloneElement setStyle s target options = (Inl ElementNotFound, s) \<and>
         cloneAndAddToDOM setStyle layout s target options = (Inl ElementNotFound, s) \<and>
         getFullDimensions setStyle layout s target = (Inl ElementNotFound, s) \<and>
         checkScrollLimits getComputedStyle s target = (Inl ElementNotFound, s)"
proof -
  from assms have none: "resolve_target (doc s) target = None"
    by (auto simp: resolve_target_def)
  then show ?thesis
    by (simp add: cloneElement_not_found cloneAndAddToDOM_def getFullDimensions_def
          checkScrollLimits_def)
qed

theorem target_not_found_no_mutation_witness:
  "getElementById (doc sample_state) ''nonexistent-id'' = None \<and>
   cloneElement sample_setStyle sample_state (ById ''nonexistent-id'')
     \<lparr>position = Absent, styles = Absent\<rparr> = (Inl ElementNotFound, sample_state) \<and>
   cloneAndAddToDOM sample_setStyle sample_layout sample_state (ById ''nonexistent-id'')
     \<lparr>position = Absent, styles = Absent\<rparr> = (Inl ElementNotFound, sample_state) \<and>
   getFullDimensions sample_setStyle sample_layout sample_state (ById ''nonexistent-id'')
     = (Inl ElementNotFound, sample_state) \<and>
   checkScrollLimits sample_getComputedStyle sample_state (ById ''nonexistent-id'')
     = (Inl ElementNotFound, sample_state) \<and>
   cloneAndAddToDOM sample_setStyle sample_layout sample_state (Handle None)
     \<lparr>position = Absent, styles = Absent\<rparr> = (Inl ElementNotFound, sample_state)"
proof -
  have a: "(\<exists>i. ById ''nonexistent-id'' = ById i \<and> getElementById (doc sample_state) i = None)
           \<or> ById ''nonexistent-id'' = Handle None"
    using sample_resolve_none by simp
  have b: "(\<exists>i. Handle None = ById i \<and> getElementById (doc sample_state) i = None)
           \<or> Handle None = Handle None"
    by simp
  show ?thesis
    using target_not_found_no_mutation [OF a, of sample_setStyle
            "\<lparr>position = Absent, styles = Absent\<rparr>" sample_layout sample_getComputedStyle]
          target_not_found_no_mutation [OF b, of sample_setStyle
            "\<lparr>position = Absent, styles = Absent\<rparr>" sample_layout sample_getComputedStyle]
          sample_resolve_none
    by simp
qed

subsection \<open>Scroll-limit inspection\<close>

text \<open>
  C6. For a target that resolves to an element, \<open>checkScrollLimits\<close> returns a report
  whose strings are the computed \<open>maxHeight\<close>, \<open>overflow\<close> and \<open>overflowY\<close> of that
  element and whose booleans say that the string differs from \<open>none\<close>, \<open>visible\<close> and
  \<open>visible\<close> respectively; the state is left as it was.
\<close>

theorem checkScrollLimits_report:
  assumes "resolve_target (doc s) target = Some el"
  shows "\<exists>r. checkScrollLimits getComputedStyle s target = (Inr r, s) \<and>
           (hasMaxHeight r \<longleftrightarrow> maxHeight r \<noteq> ''none'') \<and>
           (hasOverflow r \<longleftrightarrow> overflow r \<noteq> ''visible'') \<and>
           (hasOverflowY r \<longleftrightarrow> overflowY r \<noteq> ''visible'') \<and>
           maxHeight r = getComputedStyle (doc s) el ''maxHeight'' \<and>
           overflow r = getComputedStyle (doc s) el ''overflow'' \<and>
           overflowY r = getComputedStyle (doc s) el ''overflowY''"
  using assms by (simp add: checkScrollLimits_def Let_def)

theorem checkScrollLimits_report_witness:
  "resolve_target (doc sample_state) (ById ''container'') = Some sample_container \<and>
   (\<exists>r. checkScrollLimits sample_getComputedStyle sample_state (ById ''container'')
           = (Inr r, sample_state) \<and>
         hasMaxHeight r \<and> hasOverflow r \<and> hasOverflowY r \<and>
         maxHeight r = ''50px'' \<and> overflow r = ''hidden'' \<and> overflowY r = ''hidden'')"
proof -
  have "sample_getComputedStyle (doc sample_state) sample_container ''maxHeight'' = ''50px''"
    and "sample_getComputedStyle (doc sample_state) sample_container ''overflow'' = ''hidden''"
    and "sample_getComputedStyle (doc sample_state) sample_container ''overflowY'' = ''hidden''"
    by (simp_all add: sample_getComputedStyle_def sample_container_def style_read_def)
  then show ?thesis
    using checkScrollLimits_report [OF sample_resolve, of sample_getComputedStyle] sample_resolve
    by auto
qed

subsection \<open>Caller styles come last\<close>




subsection \<open>Placement of the attached clone\<close>

text \<open>
  C10. When the options passed to \<open>cloneAndAddToDOM\<close> have a \<open>position\<close> property whose
  value is \<open>undefined\<close>, the spread copies it over the default: the clone appended to
  the body is the normalised copy with the caller's styles assigned and no placement
  step in between, so each placement property that the caller's entries leave alone
  reads as it does on the target. The clone is attached whenever the style object
  refuses none of the entries.
\<close>

theorem explicit_undefined_position:
  assumes "resolve_target (doc s) target = Some el"
    and "position options = Undefined"
  shows "(never_refuses setStyle (style_entries options) \<longrightarrow>
            (\<exists>h s'. cloneAndAddToDOM setStyle layout s target options = (Inr h, s'))) \<and>
         (\<forall>h s'. cloneAndAddToDOM setStyle layout s target options = (Inr h, s') \<longrightarrow>
            children (body (doc s')) = children (body (doc s)) @ [element h] \<and>
            apply_styles setStyle (styles options)
              (removeScrollLimits (fst (cloneNode (next_id s) el))) = Inr (element h) \<and>
            (\<forall>p \<in> {''position'', ''left'', ''top'', ''zIndex'', ''display''}.
               leaves_alone setStyle (style_entries options) p \<longrightarrow>
               style_read (style (element h)) p = style_read (style el) p))"
proof -
  let ?normal = "removeScrollLimits (fst (cloneNode (next_id s) el))"
  from assms(2) have p: "position (with_default_position options) = Undefined"
    by (simp add: with_default_position_def)
  have after: "children (body (doc s')) = children (body (doc s)) @ [element h] \<and>
            apply_styles setStyle (styles options) ?normal = Inr (element h) \<and>
            (\<forall>p \<in> {''position'', ''left'', ''top'', ''zIndex'', ''display''}.
               leaves_alone setStyle (style_entries options) p \<longrightarrow>
               style_read (style (element h)) p = style_read (style el) p)"
    if run: "cloneAndAddToDOM setStyle layout s target options = (Inr h, s')" for h s'
  proof -
    from cloneAndAddToDOM_found(1) [OF assms(1) run] p
    have h: "apply_styles setStyle (styles options) ?normal = Inr (element h)"
      by (simp add: apply_position_def)
    from cloneAndAddToDOM_found(4) [OF assms(1) run]
    have kids: "children (body (doc s')) = children (body (doc s)) @ [element h]"
      by (simp add: children_body_appendChild)
    have "style_read (style (element h)) q = style_read (style el) q"
      if q: "q \<in> {''position'', ''left'', ''top'', ''zIndex'', ''display''}"
        and la: "leaves_alone setStyle (style_entries options) q" for q
      using object_assign_leaves_alone [OF la apply_styles_Inr(1) [OF h]]
            placement_untouched_by_normalisation [OF q]
      by simp
    with h kids show ?thesis by blast
  qed
  from cloneAndAddToDOM_succeeds [OF assms(1), of setStyle options layout] after
  show ?thesis by blast
qed

theorem explicit_undefined_position_witness:
  "resolve_target (doc sample_state) (ById ''container'') = Some sample_container \<and>
   position \<lparr>position = Undefined, styles = Value [(''color'', ''blue'')]\<rparr> = Undefined \<and>
   never_refuses sample_setStyle
     (style_entries \<lparr>position = Undefined, styles = Value [(''color'', ''blue'')]\<rparr>) \<and>
   leaves_alone sample_setStyle
     (style_entries \<lparr>position = Undefined, styles = Value [(''color'', ''blue'')]\<rparr>) ''left'' \<and>
   ''left'' \<in> {''position'', ''left'', ''top'', ''zIndex'', ''display''} \<and>
   (\<exists>h s'. cloneAndAddToDOM sample_setStyle sample_layout sample_state (ById ''container'')
              \<lparr>position = Undefined, styles = Value [(''color'', ''blue'')]\<rparr> = (Inr h, s') \<and>
           style_read (style (element h)) ''left'' = None)"
proof -
  let ?opts = "\<lparr>position = Undefined, styles = Value [(''color'', ''blue'')]\<rparr>"
  have none: "style_read (style sample_container) ''left'' = None"
    by (simp add: sample_container_def style_read_def)
  have nr: "never_refuses sample_setStyle (style_entries ?opts)"
    by (simp add: never_refuses_def style_entries_def sample_setStyle_def)
  have la: "leaves_alone sample_setStyle (style_entries ?opts) ''left''"
    by (auto simp: leaves_alone_def style_entries_def sample_setStyle_def style_read_def)
  have pos: "position ?opts = Undefined" by simp
  have mem: "''left'' \<in> {''position'', ''left'', ''top'', ''zIndex'', ''display''}" by simp
  note inst = explicit_undefined_position [OF sample_resolve pos, of sample_setStyle sample_layout]
  from inst nr obtain h s' where run:
    "cloneAndAddToDOM sample_setStyle sample_layout sample_state (ById ''container'') ?opts
       = (Inr h, s')"
    by blast
  with inst la mem have "style_read (style (element h)) ''left''
      = style_read (style sample_container) ''left''"
    by blast
  with run none
  have "\<exists>h s'. cloneAndAddToDOM sample_setStyle sample_layout sample_state (ById ''container'')
              ?opts = (Inr h, s') \<and> style_read (style (element h)) ''left'' = None"
    by auto
  with sample_resolve pos nr la mem show ?thesis by blast
qed




section \<open>Attaching and detaching the clone\<close>

subsection \<open>Node identities\<close>

text \<open>
  The clone is made of nodes with identities from \<open>next_id\<close> on, so a state with fresh
  identities stays so when a clone is attached.
\<close>

lemma cloneNode_ids:
  "n < snd (cloneNode n e) \<and>
   (\<forall>x \<in> set (nodes (fst (cloneNode n e))). node_id x < snd (cloneNode n e))"
  "n \<le> snd (cloneNodes n cs) \<and>
   (\<forall>c \<in> set (fst (cloneNodes n cs)). \<forall>x \<in> set (nodes c). node_id x < snd (cloneNodes n cs))"
proof (induction n e and n cs rule: cloneNode_cloneNodes.induct)
  case (1 n i t a st cs)
  then show ?case by (auto split: prod.splits)
next
  case (2 n)
  then show ?case by simp
next
  case (3 n c cs)
  then show ?case by (fastforce split: prod.splits)
qed

lemma node_ids_set_style [simp]:
  "map node_id (nodes (set_style p v c)) = map node_id (nodes c)"
  by (cases c) simp

lemma node_ids_with_style [simp]:
  "map node_id (nodes (with_style st c)) = map node_id (nodes c)"
  by (cases c) simp

lemma node_ids_apply_position [simp]:
  "map node_id (nodes (apply_position p c)) = map node_id (nodes c)"
  by (simp add: apply_position_def)

lemma apply_styles_node_ids:
  assumes "apply_styles setStyle st c = Inr c'"
  shows "map node_id (nodes c') = map node_id (nodes c)"
  using assms by (auto simp: apply_styles_def split: property.splits sum.splits)

lemma document_nodes_appendChild:
  "map node_id (document_nodes (body_appendChild c d)) =
   map node_id (document_nodes d) @ map node_id (nodes c)"
  by (cases "body d") (simp add: document_nodes_def body_appendChild_def)

lemma fresh_ids_alt:
  "fresh_ids s \<longleftrightarrow> (\<forall>i \<in> set (map node_id (document_nodes (doc s))). i < next_id s)"
  by (simp add: fresh_ids_def)

lemma cloneAndAddToDOM_keeps_fresh:
  assumes "fresh_ids s" and "cloneAndAddToDOM setStyle layout s target options = (Inr h, s')"
  shows "fresh_ids s'"
proof (cases "resolve_target (doc s) target")
  case None
  then have "cloneAndAddToDOM setStyle layout s target options = (Inl ElementNotFound, s)"
    by (simp add: cloneAndAddToDOM_def cloneElement_not_found)
  with assms show ?thesis by simp
next
  case (Some el)
  note e = cloneAndAddToDOM_found(1) [OF Some assms(2)]
  note d = cloneAndAddToDOM_found(4) [OF Some assms(2)]
  note n = cloneAndAddToDOM_found(5) [OF Some assms(2)]
  have ids: "map node_id (nodes (element h)) =
             map node_id (nodes (fst (cloneNode (next_id s) el)))"
    using apply_styles_node_ids [OF e] by (simp add: node_ids_removeScrollLimits)
  have old: "\<forall>i \<in> set (map node_id (document_nodes (doc s))). i < next_id s'"
    using assms(1) cloneNode_ids(1) [of "next_id s" el] n
    unfolding fresh_ids_alt by fastforce
  have new: "\<forall>i \<in> set (map node_id (nodes (element h))). i < next_id s'"
    unfolding ids n using cloneNode_ids(1) [of "next_id s" el] by simp
  show ?thesis
    unfolding fresh_ids_alt d document_nodes_appendChild using old new by auto
qed

lemma children_in_nodes: "c \<in> set (children e) \<Longrightarrow> c \<in> set (nodes e)"
proof (cases e)
  case (Element i t a st cs)
  assume "c \<in> set (children e)"
  with Element have "c \<in> set cs" by simp
  moreover have "c \<in> set (nodes c)" by (rule nodes_self)
  ultimately show ?thesis using Element by auto
qed

lemma fresh_ids_not_contained: "fresh_ids s \<Longrightarrow> \<not> body_contains (next_id s) (doc s)"
  by (auto simp: fresh_ids_def body_contains_def document_nodes_def)

lemma not_contained_not_child:
  "\<not> body_contains i d \<Longrightarrow> i \<notin> set (map node_id (children (body d)))"
  by (auto simp: body_contains_def dest: children_in_nodes)

lemma remove_node_append_new:
  "i \<notin> set (map node_id cs) \<Longrightarrow> node_id c = i \<Longrightarrow> remove_node i (cs @ [c]) = cs"
  by (induction cs) auto

lemma detach_after_attach:
  assumes "\<not> body_contains (node_id c) d"
  shows "body_removeChild (node_id c) (body_appendChild c d) = Inr d"
  using not_contained_not_child [OF assms]
  by (simp add: body_removeChild_def body_appendChild_def remove_node_append_new)

lemma getFullDimensions_found:
  assumes "resolve_target (doc s) target = Some el" and "fresh_ids s"
  shows "getFullDimensions setStyle layout s target =
           (Inr (read_dimensions layout (next_id s)
                   (body_appendChild
                      (apply_position (Value OffScreen)
                         (removeScrollLimits (fst (cloneNode (next_id s) el))))
                      (doc s))),
            s\<lparr>next_id := snd (cloneNode (next_id s) el)\<rparr>)"
proof -
  let ?c = "apply_position (Value OffScreen) (removeScrollLimits (fst (cloneNode (next_id s) el)))"
  have id: "node_id ?c = next_id s"
    by (simp add: cloneNode_root)
  with fresh_ids_not_contained [OF assms(2)] have "\<not> body_contains (node_id ?c) (doc s)"
    by simp
  from detach_after_attach [OF this] id show ?thesis
    by (simp add: getFullDimensions_def cloneElement_found [OF assms(1)] apply_styles_def Let_def)
qed

lemma sample_fresh: "fresh_ids sample_state"
  by (simp add: fresh_ids_def document_nodes_def sample_state_def sample_container_def)

subsection \<open>One-shot measurement\<close>

text \<open>
  C5. When \<open>getFullDimensions\<close> returns a dimension snapshot, the document is the one
  before the call, so the children of the body are the same: the snapshot was read
  from a clone that was not in the body before, was its last child while measured, and
  is not in the body afterwards.
\<close>

theorem getFullDimensions_no_residue:
  assumes "fresh_ids s"
    and "getFullDimensions setStyle layout s target = (Inr dimensions, s')"
  shows "children (body (doc s')) = children (body (doc s)) \<and>
         doc s' = doc s \<and>
         (\<exists>c. node_id c = next_id s \<and>
              \<not> body_contains (node_id c) (doc s) \<and>
              dimensions = read_dimensions layout (node_id c) (body_appendChild c (doc s)) \<and>
              \<not> body_contains (node_id c) (doc s'))"
proof (cases "resolve_target (doc s) target")
  case None
  then have "getFullDimensions setStyle layout s target = (Inl ElementNotFound, s)"
    by (simp add: getFullDimensions_def cloneElement_not_found)
  with assms(2) show ?thesis by simp
next
  case (Some el)
  let ?c = "apply_position (Value OffScreen) (removeScrollLimits (fst (cloneNode (next_id s) el)))"
  have id: "node_id ?c = next_id s"
    by (simp add: cloneNode_root)
  from getFullDimensions_found [OF Some assms(1), of setStyle layout] assms(2)
  have dims: "dimensions = read_dimensions layout (next_id s) (body_appendChild ?c (doc s))"
    and s': "s' = s\<lparr>next_id := snd (cloneNode (next_id s) el)\<rparr>"
    by simp_all
  from s' have same: "doc s' = doc s" by simp
  have nc: "\<not> body_contains (node_id ?c) (doc s)"
    using fresh_ids_not_contained [OF assms(1)] id by simp
  have "node_id ?c = next_id s \<and> \<not> body_contains (node_id ?c) (doc s) \<and>
        dimensions = read_dimensions layout (node_id ?c) (body_appendChild ?c (doc s)) \<and>
        \<not> body_contains (node_id ?c) (doc s')"
    using id nc dims same by simp
  then have "\<exists>c. node_id c = next_id s \<and> \<not> body_contains (node_id c) (doc s) \<and>
        dimensions = read_dimensions layout (node_id c) (body_appendChild c (doc s)) \<and>
        \<not> body_contains (node_id c) (doc s')"
    by (rule exI)
  with same show ?thesis by simp
qed

theorem getFullDimensions_no_residue_witness:
  "fresh_ids sample_state \<and>
   getFullDimensions sample_setStyle sample_layout sample_state (ById ''container'') =
     (Inr \<lparr>width = 300, height = 500, offsetWidth = 300, offsetHeight = 500\<rparr>,
      sample_state\<lparr>next_id := 6\<rparr>) \<and>
   children (body (doc (sample_state\<lparr>next_id := 6\<rparr>))) = children (body (doc sample_state))"
proof -
  have run: "getFullDimensions sample_setStyle sample_layout sample_state (ById ''container'') =
     (Inr \<lparr>width = 300, height = 500, offsetWidth = 300, offsetHeight = 500\<rparr>,
      sample_state\<lparr>next_id := 6\<rparr>)"
    by (simp add: getFullDimensions_found [OF sample_resolve sample_fresh] read_dimensions_def
          sample_layout_def)
       (simp add: sample_container_def sample_state_def)
  from getFullDimensions_no_residue [OF sample_fresh run] run sample_fresh
  show ?thesis by simp
qed

subsection \<open>Releasing an attached clone\<close>

text \<open>
  Right after \<open>cloneAndAddToDOM\<close> the clone is the last child of the body: the first
  \<open>remove\<close> takes it out and restores the document, the second finds it gone and does
  nothing. The same holds whenever the clone is not in the body any more.
\<close>

lemma body_contains_appended: "body_contains (node_id c) (body_appendChild c d)"
  by (cases c) (simp add: body_contains_def body_appendChild_def)

lemma remove_clone_not_contained:
  "\<not> body_contains i (doc s) \<Longrightarrow> remove_clone i s = (Inr (), s)"
  by (simp add: remove_clone_def)

lemma remove_clone_after_attach:
  assumes "\<not> body_contains (node_id c) (doc s)"
  shows "remove_clone (node_id c) (s\<lparr>doc := body_appendChild c (doc s)\<rparr>) = (Inr (), s)"
  using detach_after_attach [OF assms] body_contains_appended [of c "doc s"]
  by (simp add: remove_clone_def)

lemma remove_twice_after_attach:
  assumes "resolve_target (doc s) target = Some el" and "fresh_ids s"
    and "cloneAndAddToDOM setStyle layout s target options = (Inr h, s1)"
  shows "\<exists>s2. remove h s1 = (Inr (), s2) \<and> doc s2 = doc s \<and> remove h s2 = (Inr (), s2)"
proof -
  note h = cloneAndAddToDOM_found(2) [OF assms(1,3)]
  note id = cloneAndAddToDOM_found(3) [OF assms(1,3)]
  note d = cloneAndAddToDOM_found(4) [OF assms(1,3)]
  have nc: "\<not> body_contains (node_id (element h)) (doc s)"
    using fresh_ids_not_contained [OF assms(2)] id by simp
  let ?s2 = "s1\<lparr>doc := doc s\<rparr>"
  have s1: "s1 = ?s2\<lparr>doc := body_appendChild (element h) (doc ?s2)\<rparr>"
    using d by simp
  have nc2: "\<not> body_contains (node_id (element h)) (doc ?s2)"
    using nc by simp
  have first: "remove_clone (node_id (element h)) s1 = (Inr (), ?s2)"
    using remove_clone_after_attach [OF nc2] s1 by simp
  have second: "remove_clone (node_id (element h)) ?s2 = (Inr (), ?s2)"
    using remove_clone_not_contained [OF nc2] .
  from first second h id show ?thesis by simp
qed

text \<open>
  C3. The claim: \<open>remove\<close> takes the clone out of the document if and only if the clone is
  still contained in it, and never raises, however often it is called. The source guards
  \<open>document.body.removeChild(clone)\<close> with \<open>document.body.contains(clone)\<close>; the guard
  also holds for a clone that sits deeper inside the body, where \<open>removeChild\<close> raises
  \<open>NotFoundError\<close>. On the sample page: the caller attaches a clone of the container,
  moves the clone into a new \<open>div\<close> of the body and calls \<open>remove\<close>; the clone is
  contained in the body, the call raises and the clone stays in the document.
\<close>

theorem remove_after_reparenting_raises:
  "\<exists>h s1. cloneAndAddToDOM sample_setStyle sample_layout sample_state (ById ''container'')
              \<lparr>position = Absent, styles = Absent\<rparr> = (Inr h, s1) \<and>
           map node_id (children (body (doc s1))) = [2, node_id (element h)] \<and>
           children (body (doc (sample_wrap_clone s1))) =
             [sample_container, Element (next_id s1) ''div'' [] Map.empty [element h]] \<and>
           body_contains (node_id (element h)) (doc (sample_wrap_clone s1)) \<and>
           remove h (sample_wrap_clone s1) = (Inl DOM_NotFoundError, sample_wrap_clone s1)"
proof -
  from cloneAndAddToDOM_succeeds [OF sample_resolve, of sample_setStyle
         "\<lparr>position = Absent, styles = Absent\<rparr>" sample_layout]
  obtain h s1 where run: "cloneAndAddToDOM sample_setStyle sample_layout sample_state
              (ById ''container'') \<lparr>position = Absent, styles = Absent\<rparr> = (Inr h, s1)"
    by auto
  note rm = cloneAndAddToDOM_found(2) [OF sample_resolve run]
  note id0 = cloneAndAddToDOM_found(3) [OF sample_resolve run]
  note d = cloneAndAddToDOM_found(4) [OF sample_resolve run]
  note n = cloneAndAddToDOM_found(5) [OF sample_resolve run]
  have id: "node_id (element h) = 4"
    using id0 by (simp add: sample_state_def)
  have kids: "map node_id (children (body (doc (sample_wrap_clone s1)))) = [2, next_id s1]"
    by (simp add: sample_wrap_clone_def d children_body_appendChild sample_state_def
          sample_container_def)
  have n1: "next_id s1 \<noteq> 4"
    using n by (simp add: sample_state_def sample_container_def)
  have inside: "body_contains 4 (doc (sample_wrap_clone s1))"
    using id
    by (cases "element h")
       (simp add: body_contains_def sample_wrap_clone_def d children_body_appendChild)
  have "body_removeChild 4 (doc (sample_wrap_clone s1)) = Inl DOM_NotFoundError"
    using kids n1 by (simp add: body_removeChild_def)
  with inside have "remove_clone 4 (sample_wrap_clone s1) = (Inl DOM_NotFoundError, sample_wrap_clone s1)"
    by (simp add: remove_clone_def)
  moreover have "map node_id (children (body (doc s1))) = [2, 4]"
    using id by (simp add: d children_body_appendChild sample_state_def sample_container_def)
  moreover have "children (body (doc (sample_wrap_clone s1))) =
             [sample_container, Element (next_id s1) ''div'' [] Map.empty [element h]]"
    by (simp add: sample_wrap_clone_def d children_body_appendChild sample_state_def)
  ultimately show ?thesis
    using run rm id inside by (simp add: sample_state_def)
qed

end
